theory Spec2Isabelle
  imports Main "HOL-Library.Word" "HOL-Library.Char_ord" "HOL-Library.List_Lexorder"
    "HOL-Library.Sublist" "HOL-Library.AList"
begin

section \<open>Retention engine of the pebble-backed message queue\<close>

text \<open>
  A shallow embedding of \<^verbatim>\<open>internal/mq/mqimpl/pebblemq/server/pebblemq_retention.go\<close>.
  Keys and values are byte strings ordered bytewise (the order of the LSM store), Go's
  \<^verbatim>\<open>int64\<close> is a 64-bit word read in two's complement, and a function that returns an
  \<^verbatim>\<open>error\<close> returns \<open>error option\<close> beside the state it leaves behind.
\<close>

subsection \<open>Integers, decimal text and errors\<close>

type_synonym int64 = "64 word"
type_synonym UniqueID = int64

datatype error =
    NumError string            \<comment> \<open>\<^verbatim>\<open>strconv.ParseInt\<close> rejected the text\<close>
  | KeyNoSlash string          \<comment> \<open>\<^verbatim>\<open>parsePageID\<close>: the key has no \<^verbatim>\<open>/\<close>\<close>
  | TopicNotExist string       \<comment> \<open>\<^verbatim>\<open>"topic name = %s not exist"\<close>\<close>
  | GetMutexFailed string      \<comment> \<open>\<^verbatim>\<open>"get mutex failed, topic name = %s"\<close>\<close>
  | KVError                    \<comment> \<open>an error of the store: read, iterate or commit\<close>

definition MB :: int64 where
  "MB = 1024 * 1024"

definition digit_char :: "nat \<Rightarrow> char" where
  "digit_char d = char_of (48 + d)"

fun dec_nat :: "nat \<Rightarrow> string" where
  "dec_nat n = (if n < 10 then [digit_char n] else dec_nat (n div 10) @ [digit_char (n mod 10)])"

declare dec_nat.simps [simp del]

text \<open>\<^verbatim>\<open>strconv.FormatInt(i, 10)\<close>: a minus sign for a negative value, then the digits.\<close>

definition FormatInt :: "int64 \<Rightarrow> string" where
  "FormatInt i = (if sint i < 0 then CHR ''-'' # dec_nat (nat (- sint i)) else dec_nat (nat (sint i)))"

definition is_digit :: "char \<Rightarrow> bool" where
  "is_digit c = (CHR ''0'' \<le> c \<and> c \<le> CHR ''9'')"

definition digit_val :: "char \<Rightarrow> int" where
  "digit_val c = of_char c - 48"

definition digits_val :: "string \<Rightarrow> int" where
  "digits_val ds = foldl (\<lambda>a c. 10 * a + digit_val c) 0 ds"

text \<open>
  \<^verbatim>\<open>strconv.ParseInt(s, 10, 64)\<close>: an optional sign, then at least one decimal digit and
  nothing else; a value outside \<open>[-2^63, 2^63)\<close> is an error as well.
\<close>

definition ParseInt :: "string \<Rightarrow> error + int64" where
  "ParseInt s =
     (let neg = (s \<noteq> [] \<and> hd s = CHR ''-'');
          ds = (if s \<noteq> [] \<and> (hd s = CHR ''+'' \<or> hd s = CHR ''-'') then tl s else s)
      in if ds = [] \<or> \<not> list_all is_digit ds then Inl (NumError s)
         else if \<not> neg \<and> 2 ^ 63 \<le> digits_val ds then Inl (NumError s)
         else if neg \<and> 2 ^ 63 < digits_val ds then Inl (NumError s)
         else Inr (if neg then - of_int (digits_val ds) else of_int (digits_val ds)))"

subsection \<open>Keys\<close>

text \<open>
  Modelled from the spec: the key titles, \<^verbatim>\<open>constructKey\<close> and \<^verbatim>\<open>parsePageID\<close> are declared in
  files of the package that are not part of the sources at hand. The persisted layout is
  \<^verbatim>\<open>page_msg_size/{topic}/{pageID}\<close>, \<^verbatim>\<open>page_ts/{topic}/{pageID}\<close>, \<^verbatim>\<open>acked_ts/{topic}/{pageID}\<close>
  and \<^verbatim>\<open>topic_id/{topic}\<close>, the separator is \<^verbatim>\<open>/\<close> and the page id is the decimal text after
  the last separator.
\<close>

definition PageMsgSizeTitle :: string where
  "PageMsgSizeTitle = ''page_msg_size/''"

definition PageTsTitle :: string where
  "PageTsTitle = ''page_ts/''"

definition AckedTsTitle :: string where
  "AckedTsTitle = ''acked_ts/''"

definition constructKey :: "string \<Rightarrow> string \<Rightarrow> string" where
  "constructKey metaName topic = metaName @ topic"

definition after_last_slash :: "string \<Rightarrow> string" where
  "after_last_slash key = rev (takeWhile (\<lambda>c. c \<noteq> CHR ''/'') (rev key))"

definition parsePageID :: "string \<Rightarrow> error + UniqueID" where
  "parsePageID key =
     (if CHR ''/'' \<notin> set key then Inl (KeyNoSlash key) else ParseInt (after_last_slash key))"

text \<open>
  Modelled from the spec: \<^verbatim>\<open>typeutil.AddOne\<close> is not part of the sources at hand. It is the
  successor used as an exclusive upper bound: the last byte is incremented, and a zero byte
  is appended when the last byte is the maximum byte. The spec leaves the empty string
  open; it is returned as it is.
\<close>

definition AddOne :: "string \<Rightarrow> string" where
  "AddOne data =
     (if data = [] then data
      else if last data \<noteq> char_of (255 :: nat)
        then butlast data @ [char_of (of_char (last data) + (1 :: nat))]
        else data @ [char_of (0 :: nat)])"

subsection \<open>Go's \<^verbatim>\<open>path.Join\<close>\<close>

fun split_slash :: "string \<Rightarrow> string \<Rightarrow> string list" where
  "split_slash cur [] = [rev cur]"
| "split_slash cur (c # cs) =
     (if c = CHR ''/'' then rev cur # split_slash [] cs else split_slash (c # cur) cs)"

text \<open>
  The elements of \<^verbatim>\<open>path.Clean\<close>: empty elements and \<^verbatim>\<open>.\<close> are dropped, \<^verbatim>\<open>..\<close> removes the
  element before it, is dropped at the start of a rooted path and is kept at the start of
  any other. The stack \<open>out\<close> holds the elements kept so far, the last one first.
\<close>

fun clean_elems :: "bool \<Rightarrow> string list \<Rightarrow> string list \<Rightarrow> string list" where
  "clean_elems rooted out [] = rev out"
| "clean_elems rooted out (c # cs) =
     (if c = [] \<or> c = ''.'' then clean_elems rooted out cs
      else if c = ''..'' then
        (case out of
           [] \<Rightarrow> if rooted then clean_elems rooted [] cs else clean_elems rooted [''..''] cs
         | e # es \<Rightarrow> if e = ''..'' then clean_elems rooted (''..'' # out) cs
                     else clean_elems rooted es cs)
      else clean_elems rooted (c # out) cs)"

fun join_slash :: "string list \<Rightarrow> string" where
  "join_slash [] = []"
| "join_slash [e] = e"
| "join_slash (e # es) = e @ CHR ''/'' # join_slash es"

definition path_Clean :: "string \<Rightarrow> string" where
  "path_Clean p =
     (if p = [] then ''.''
      else let rooted = (hd p = CHR ''/'');
               r = (if rooted then ''/'' else []) @ join_slash (clean_elems rooted [] (split_slash [] p))
           in if r = [] then ''.'' else r)"

definition path_Join :: "string list \<Rightarrow> string" where
  "path_Join elem =
     (let es = filter (\<lambda>e. e \<noteq> []) elem
      in if es = [] then [] else path_Clean (join_slash es))"

subsection \<open>The stores\<close>

text \<open>
  A store is the list of its entries. Point reads take the first entry of a key, an
  iterator walks the entries in ascending bytewise key order, and a range delete removes
  every key \<open>k\<close> with \<open>lo \<le> k < hi\<close>.
\<close>

type_synonym store = "(string \<times> string) list"

definition kv_get :: "store \<Rightarrow> string \<Rightarrow> string option" where
  "kv_get s k = map_of s k"

definition DeleteRange :: "string \<Rightarrow> string \<Rightarrow> store \<Rightarrow> store" where
  "DeleteRange lo hi s = filter (\<lambda>(k, v). \<not> (lo \<le> k \<and> k < hi)) s"

definition apply_batch :: "(string \<times> string) list \<Rightarrow> store \<Rightarrow> store" where
  "apply_batch b s = foldl (\<lambda>t (lo, hi). DeleteRange lo hi t) s b"

text \<open>
  The failures of the store are inputs of the model: the keys whose point read fails, the
  number of entries after which each of the two prefix iterators fails (if it does), and
  whether the commit of a batch on each store fails. A failed commit leaves its store as
  it was.
\<close>

record faults =
  load_fails :: "string \<Rightarrow> bool"
  size_iter_fails :: "nat option"
  page_iter_fails :: "nat option"
  db_commit_fails :: bool
  kv_commit_fails :: bool

definition no_faults :: faults where
  "no_faults = \<lparr> load_fails = (\<lambda>k. False), size_iter_fails = None, page_iter_fails = None,
                 db_commit_fails = False, kv_commit_fails = False \<rparr>"

text \<open>
  Modelled from the spec: \<^verbatim>\<open>PebbleKV.Load\<close> is not part of the sources at hand. It returns
  the empty string for an absent key, which is not an error.
\<close>

definition Load :: "faults \<Rightarrow> store \<Rightarrow> string \<Rightarrow> error + string" where
  "Load f s k =
     (if load_fails f k then Inl KVError
      else Inr (case kv_get s k of None \<Rightarrow> [] | Some v \<Rightarrow> v))"

record iterator =
  pending :: "(string \<times> string) list"
  failing :: bool

definition entries_from :: "store \<Rightarrow> string \<Rightarrow> string \<Rightarrow> (string \<times> string) list" where
  "entries_from s lo ub = filter (\<lambda>(k, v). lo \<le> k \<and> k < ub) (sort_key fst s)"

text \<open>
  \<^verbatim>\<open>NewPebbleIteratorWithUpperBound\<close> followed by \<^verbatim>\<open>Seek(lo)\<close>: the entries from \<open>lo\<close> up to
  the exclusive upper bound; an iterator that fails stops being valid after \<open>n\<close> entries and
  then reports its error.
\<close>

definition seek_iter :: "nat option \<Rightarrow> store \<Rightarrow> string \<Rightarrow> string \<Rightarrow> iterator" where
  "seek_iter stop s lo ub =
     (case stop of
        None \<Rightarrow> \<lparr> pending = entries_from s lo ub, failing = False \<rparr>
      | Some n \<Rightarrow> \<lparr> pending = take n (entries_from s lo ub), failing = True \<rparr>)"

definition iter_Err :: "iterator \<Rightarrow> error option" where
  "iter_Err it = (if pending it = [] \<and> failing it then Some KVError else None)"

subsection \<open>Expiry predicates\<close>

text \<open>
  The configuration as the code reads it: \<open>retentionSeconds\<close> is
  \<^verbatim>\<open>int64(RetentionTimeInMinutes * 60)\<close>, \<open>checkTime\<close> is \<^verbatim>\<open>int64(RetentionTimeInMinutes * 60 / 10)\<close>
  and \<open>RetentionSizeInMB\<close> is the configured size. The clock reading
  \<^verbatim>\<open>time.Now().Unix()\<close> is an argument.
\<close>

record PebblemqCfg =
  retentionSeconds :: int64
  checkTime :: int64
  RetentionSizeInMB :: int64

definition msgTimeExpiredCheck :: "PebblemqCfg \<Rightarrow> int64 \<Rightarrow> int64 \<Rightarrow> bool" where
  "msgTimeExpiredCheck params now ackedTs =
     (if retentionSeconds params <s 0 then False
      else ackedTs + retentionSeconds params <s now)"

definition msgSizeExpiredCheck :: "PebblemqCfg \<Rightarrow> int64 \<Rightarrow> int64 \<Rightarrow> bool" where
  "msgSizeExpiredCheck params deletedAckedSize ackedSize =
     (if RetentionSizeInMB params <s 0 then False
      else RetentionSizeInMB params * MB <s ackedSize - deletedAckedSize)"

subsection \<open>The state of the engine\<close>

text \<open>
  The fields of \<^verbatim>\<open>retentionInfo\<close> that hold data: the tracker \<^verbatim>\<open>topicRetetionTime\<close>, the
  metadata store \<^verbatim>\<open>kv\<close> and the message store \<^verbatim>\<open>db\<close>. The package-level registry \<^verbatim>\<open>topicMu\<close>
  is carried along; an entry of it is a mutex or, for the failed type assertion, something
  else. Two more fields record what the engine did: the stores on which a batch was
  committed, in order, and the errors logged by \<^verbatim>\<open>log.Warn\<close>.
\<close>

datatype store_id = DataKV | MetaKV

datatype lock_entry = Mutex | NotMutex

record retentionInfo =
  topicRetetionTime :: "(string \<times> int64) list"
  kv :: store
  db :: store
  topicMu :: "(string \<times> lock_entry) list"
  commits :: "store_id list"
  warned :: "error list"

definition Commit :: "bool \<Rightarrow> (string \<times> string) list \<Rightarrow> store \<Rightarrow> error + store" where
  "Commit fails writeBatch s = (if fails then Inl KVError else Inr (apply_batch writeBatch s))"

subsection \<open>\<^verbatim>\<open>DeleteMessages\<close> and \<^verbatim>\<open>cleanData\<close>\<close>

definition DeleteMessages :: "faults \<Rightarrow> store \<Rightarrow> string \<Rightarrow> UniqueID \<Rightarrow> UniqueID \<Rightarrow> error + store" where
  "DeleteMessages f d topic startID endID =
     (let startKey = path_Join [topic, FormatInt startID];
          endKey = path_Join [topic, FormatInt (endID + 1)]
      in Commit (db_commit_fails f) [(startKey, endKey)] d)"

definition cleanData :: "faults \<Rightarrow> retentionInfo \<Rightarrow> string \<Rightarrow> UniqueID \<Rightarrow> error option \<times> retentionInfo" where
  "cleanData f ri topic pageEndID =
     (let pageMsgPrefix = constructKey PageMsgSizeTitle topic;
          fixedAckedTsKey = constructKey AckedTsTitle topic;
          pageStartIDKey = pageMsgPrefix @ ''/'';
          pageEndIDKey = pageMsgPrefix @ ''/'' @ FormatInt (pageEndID + 1);
          pageTsPrefix = constructKey PageTsTitle topic;
          pageTsStartIDKey = pageTsPrefix @ ''/'';
          pageTsEndIDKey = pageTsPrefix @ ''/'' @ FormatInt (pageEndID + 1);
          ackedStartIDKey = fixedAckedTsKey @ ''/'';
          ackedEndIDKey = fixedAckedTsKey @ ''/'' @ FormatInt (pageEndID + 1);
          writeBatch = [(pageStartIDKey, pageEndIDKey), (pageTsStartIDKey, pageTsEndIDKey),
                        (ackedStartIDKey, ackedEndIDKey)]
      in case map_of (topicMu ri) topic of
           None \<Rightarrow> (Some (TopicNotExist topic), ri)
         | Some NotMutex \<Rightarrow> (Some (GetMutexFailed topic), ri)
         | Some Mutex \<Rightarrow>
             (case DeleteMessages f (db ri) topic 0 pageEndID of
                Inl err \<Rightarrow> (Some err, ri)
              | Inr d \<Rightarrow>
                  (case Commit (kv_commit_fails f) writeBatch (kv ri) of
                     Inl err \<Rightarrow> (Some err, ri\<lparr>db := d, commits := commits ri @ [DataKV]\<rparr>)
                   | Inr m \<Rightarrow>
                       (None, ri\<lparr>db := d, kv := m, commits := commits ri @ [DataKV, MetaKV]\<rparr>))))"

subsection \<open>\<^verbatim>\<open>calculateTopicAckedSize\<close>\<close>

text \<open>
  The loop over the iterator. It returns the entries the iterator still holds when the
  loop is left (the entry it stands on first; none when it ran to the end) and the sum.
\<close>

fun calculateTopicAckedSize_loop ::
  "faults \<Rightarrow> store \<Rightarrow> string \<Rightarrow> (string \<times> string) list \<Rightarrow> int64 \<Rightarrow>
   error + ((string \<times> string) list \<times> int64)" where
  "calculateTopicAckedSize_loop f m fixedAckedTsKey [] ackedSize = Inr ([], ackedSize)"
| "calculateTopicAckedSize_loop f m fixedAckedTsKey ((key, val) # rest) ackedSize =
     (case parsePageID key of
        Inl err \<Rightarrow> Inl err
      | Inr pageID \<Rightarrow>
          (case Load f m (fixedAckedTsKey @ ''/'' @ FormatInt pageID) of
             Inl err \<Rightarrow> Inl err
           | Inr ackedTsVal \<Rightarrow>
               if ackedTsVal = [] then Inr ((key, val) # rest, ackedSize)
               else (case ParseInt val of
                       Inl err \<Rightarrow> Inl err
                     | Inr sz \<Rightarrow>
                         calculateTopicAckedSize_loop f m fixedAckedTsKey rest (ackedSize + sz))))"

definition calculateTopicAckedSize :: "faults \<Rightarrow> retentionInfo \<Rightarrow> string \<Rightarrow> error + int64" where
  "calculateTopicAckedSize f ri topic =
     (let fixedAckedTsKey = constructKey AckedTsTitle topic;
          pageMsgPrefix = constructKey PageMsgSizeTitle topic @ ''/'';
          pageIter = seek_iter (size_iter_fails f) (kv ri) pageMsgPrefix (AddOne pageMsgPrefix)
      in case calculateTopicAckedSize_loop f (kv ri) fixedAckedTsKey (pending pageIter) 0 of
           Inl err \<Rightarrow> Inl err
         | Inr (rest, ackedSize) \<Rightarrow>
             (case iter_Err (pageIter\<lparr>pending := rest\<rparr>) of
                Some err \<Rightarrow> Inl err
              | None \<Rightarrow> Inr ackedSize))"

subsection \<open>\<^verbatim>\<open>expiredCleanUp\<close>\<close>

record scan =
  pageEndID :: UniqueID
  deletedAckedSize :: int64
  pageCleaned :: UniqueID
  lastAck :: int64

text \<open>
  The first loop, by retention time. The \<open>n\<close>-th call of \<^verbatim>\<open>msgTimeExpiredCheck\<close> in a pass
  reads the clock as \<open>clock n\<close>.
\<close>

fun expiredCleanUp_time_loop ::
  "faults \<Rightarrow> PebblemqCfg \<Rightarrow> (nat \<Rightarrow> int64) \<Rightarrow> store \<Rightarrow> string \<Rightarrow> nat \<Rightarrow>
   (string \<times> string) list \<Rightarrow> scan \<Rightarrow> error + ((string \<times> string) list \<times> scan)" where
  "expiredCleanUp_time_loop f params clock m fixedAckedTsKey n [] v = Inr ([], v)"
| "expiredCleanUp_time_loop f params clock m fixedAckedTsKey n ((pKey, pValue) # rest) v =
     (case parsePageID pKey of
        Inl err \<Rightarrow> Inl err
      | Inr pageID \<Rightarrow>
          (case Load f m (fixedAckedTsKey @ ''/'' @ FormatInt pageID) of
             Inl err \<Rightarrow> Inl err
           | Inr ackedTsVal \<Rightarrow>
               if ackedTsVal = [] then Inr ((pKey, pValue) # rest, v)
               else (case ParseInt ackedTsVal of
                       Inl err \<Rightarrow> Inl err
                     | Inr ackedTs \<Rightarrow>
                         if msgTimeExpiredCheck params (clock n) ackedTs then
                           (case ParseInt pValue of
                              Inl err \<Rightarrow> Inl err
                            | Inr sz \<Rightarrow>
                                expiredCleanUp_time_loop f params clock m fixedAckedTsKey (Suc n) rest
                                  (v\<lparr>lastAck := ackedTs, pageEndID := pageID,
                                     deletedAckedSize := deletedAckedSize v + sz,
                                     pageCleaned := pageCleaned v + 1\<rparr>))
                         else Inr ((pKey, pValue) # rest, v\<lparr>lastAck := ackedTs\<rparr>))))"

text \<open>The second loop, by retained size, on the same iterator.\<close>

fun expiredCleanUp_size_loop ::
  "PebblemqCfg \<Rightarrow> int64 \<Rightarrow> (string \<times> string) list \<Rightarrow> scan \<Rightarrow>
   error + ((string \<times> string) list \<times> scan)" where
  "expiredCleanUp_size_loop params totalAckedSize [] v = Inr ([], v)"
| "expiredCleanUp_size_loop params totalAckedSize ((pKey, pValue) # rest) v =
     (case ParseInt pValue of
        Inl err \<Rightarrow> Inl err
      | Inr sz \<Rightarrow>
          (let curDeleteSize = deletedAckedSize v + sz
           in if msgSizeExpiredCheck params curDeleteSize totalAckedSize then
                (case parsePageID pKey of
                   Inl err \<Rightarrow> Inl err
                 | Inr pageID \<Rightarrow>
                     expiredCleanUp_size_loop params totalAckedSize rest
                       (v\<lparr>pageEndID := pageID, deletedAckedSize := deletedAckedSize v + sz,
                          pageCleaned := pageCleaned v + 1\<rparr>))
              else Inr ((pKey, pValue) # rest, v)))"

definition scan0 :: scan where
  "scan0 = \<lparr> pageEndID = 0, deletedAckedSize = 0, pageCleaned = 0, lastAck = 0 \<rparr>"

definition expiredCleanUp ::
  "faults \<Rightarrow> PebblemqCfg \<Rightarrow> (nat \<Rightarrow> int64) \<Rightarrow> retentionInfo \<Rightarrow> string \<Rightarrow>
   error option \<times> retentionInfo" where
  "expiredCleanUp f params clock ri topic =
     (let fixedAckedTsKey = constructKey AckedTsTitle topic
      in case calculateTopicAckedSize f ri topic of
           Inl err \<Rightarrow> (Some err, ri)
         | Inr totalAckedSize \<Rightarrow>
             if totalAckedSize = 0 then (None, ri)
             else
               (let pageMsgPrefix = constructKey PageMsgSizeTitle topic @ ''/'';
                    pageIter = seek_iter (page_iter_fails f) (kv ri) pageMsgPrefix (AddOne pageMsgPrefix)
                in case expiredCleanUp_time_loop f params clock (kv ri) fixedAckedTsKey 0
                          (pending pageIter) scan0 of
                     Inl err \<Rightarrow> (Some err, ri)
                   | Inr (rest1, v1) \<Rightarrow>
                       (case iter_Err (pageIter\<lparr>pending := rest1\<rparr>) of
                          Some err \<Rightarrow> (Some err, ri)
                        | None \<Rightarrow>
                            (case expiredCleanUp_size_loop params totalAckedSize rest1 v1 of
                               Inl err \<Rightarrow> (Some err, ri)
                             | Inr (rest2, v2) \<Rightarrow>
                                 (case iter_Err (pageIter\<lparr>pending := rest2\<rparr>) of
                                    Some err \<Rightarrow> (Some err, ri)
                                  | None \<Rightarrow>
                                      if pageEndID v2 = 0 then (None, ri)
                                      else cleanData f ri topic (pageEndID v2))))))"

subsection \<open>The two tickers of \<^verbatim>\<open>retention\<close>\<close>



text \<open>
  The compaction tick. \<^verbatim>\<open>SeekToLast\<close> puts an iterator on the last entry of a store, and
  the tick starts one \<^verbatim>\<open>Compact(nil, end, true)\<close> for each store whose iterator is valid;
  the requests are returned in order.
\<close>

datatype compact_request = Compact store_id "string option" string bool

definition SeekToLast :: "store \<Rightarrow> (string \<times> string) option" where
  "SeekToLast s = (case sort_key fst s of [] \<Rightarrow> None | e # es \<Rightarrow> Some (last (e # es)))"

definition iter_Key :: "string \<times> string \<Rightarrow> string" where
  "iter_Key e = fst e"

definition iter_Value :: "string \<times> string \<Rightarrow> string" where
  "iter_Value e = snd e"

definition compaction_tick :: "retentionInfo \<Rightarrow> compact_request list" where
  "compaction_tick ri =
     (case SeekToLast (db ri) of
        None \<Rightarrow> []
      | Some e \<Rightarrow> [Compact DataKV None (AddOne (iter_Value e)) True]) @
     (case SeekToLast (kv ri) of
        None \<Rightarrow> []
      | Some e \<Rightarrow> [Compact MetaKV None (AddOne (iter_Value e)) True])"

subsection \<open>Auxiliary notions for the statements\<close>


text \<open>
  The two loops of \<^verbatim>\<open>expiredCleanUp\<close> with the checks of the iterator's error after each, as
  they run between the quick path and the test of \<^verbatim>\<open>pageEndID\<close>: the position of the
  iterator and the variables when both loops are done.
\<close>

definition expiredCleanUp_passes ::
  "faults \<Rightarrow> PebblemqCfg \<Rightarrow> (nat \<Rightarrow> int64) \<Rightarrow> retentionInfo \<Rightarrow> string \<Rightarrow> int64 \<Rightarrow>
   error + ((string \<times> string) list \<times> scan)" where
  "expiredCleanUp_passes f params clock ri topic totalAckedSize =
     (let fixedAckedTsKey = constructKey AckedTsTitle topic;
          pageMsgPrefix = constructKey PageMsgSizeTitle topic @ ''/'';
          pageIter = seek_iter (page_iter_fails f) (kv ri) pageMsgPrefix (AddOne pageMsgPrefix)
      in case expiredCleanUp_time_loop f params clock (kv ri) fixedAckedTsKey 0 (pending pageIter) scan0 of
           Inl err \<Rightarrow> Inl err
         | Inr (rest1, v1) \<Rightarrow>
             (case iter_Err (pageIter\<lparr>pending := rest1\<rparr>) of
                Some err \<Rightarrow> Inl err
              | None \<Rightarrow>
                  (case expiredCleanUp_size_loop params totalAckedSize rest1 v1 of
                     Inl err \<Rightarrow> Inl err
                   | Inr (rest2, v2) \<Rightarrow>
                       (case iter_Err (pageIter\<lparr>pending := rest2\<rparr>) of
                          Some err \<Rightarrow> Inl err
                        | None \<Rightarrow> Inr (rest2, v2)))))"

subsection \<open>Pages as the scans see them\<close>

text \<open>
  The entries that a prefix iterator over \<^verbatim>\<open>page_msg_size/{topic}/\<close> yields, whether the
  scans take the page of an entry as acked (its page id parses and the read of
  \<^verbatim>\<open>acked_ts/{topic}/{pageID}\<close> gives a non-empty value), and the size an entry holds.
\<close>

definition page_entries :: "nat option \<Rightarrow> store \<Rightarrow> string \<Rightarrow> (string \<times> string) list" where
  "page_entries stop m topic =
     pending (seek_iter stop m (constructKey PageMsgSizeTitle topic @ ''/'')
                (AddOne (constructKey PageMsgSizeTitle topic @ ''/'')))"

definition page_is_acked :: "faults \<Rightarrow> store \<Rightarrow> string \<Rightarrow> string \<times> string \<Rightarrow> bool" where
  "page_is_acked f m topic e =
     (case parsePageID (fst e) of
        Inl err \<Rightarrow> False
      | Inr pageID \<Rightarrow>
          (case Load f m (constructKey AckedTsTitle topic @ ''/'' @ FormatInt pageID) of
             Inl err \<Rightarrow> False
           | Inr ackedTsVal \<Rightarrow> ackedTsVal \<noteq> []))"

definition page_size :: "string \<times> string \<Rightarrow> int64" where
  "page_size e = (case ParseInt (snd e) of Inl err \<Rightarrow> 0 | Inr sz \<Rightarrow> sz)"













subsection \<open>Example states\<close>

text \<open>
  A clock that stands at 1000, for one pass and for the passes of a tick, and a
  configuration of 60 seconds with no size limit.
\<close>

definition ex_clock :: "nat \<Rightarrow> int64" where
  "ex_clock n = 1000"


definition ex_params :: PebblemqCfg where
  "ex_params = \<lparr> retentionSeconds = 60, checkTime = 6, RetentionSizeInMB = - 1 \<rparr>"

text \<open>
  Topic \<^verbatim>\<open>t\<close> with two acked pages: page 0 acked 120 seconds ago, page 1 acked 5 seconds
  ago.
\<close>

definition ex_page0 :: retentionInfo where
  "ex_page0 = \<lparr> topicRetetionTime = [(''t'', 0)],
      kv = [(''acked_ts/t/0'', ''880''), (''acked_ts/t/1'', ''995''),
            (''page_msg_size/t/0'', ''100''), (''page_msg_size/t/1'', ''100''),
            (''page_ts/t/0'', ''870''), (''page_ts/t/1'', ''990'')],
      db = [(''t/0'', ''a''), (''t/1'', ''b'')],
      topicMu = [(''t'', Mutex)], commits = [], warned = [] \<rparr>"

text \<open>
  Topic \<^verbatim>\<open>t\<close> with two acked pages: page 1 acked 120 seconds ago, page 2 acked 5 seconds
  ago; and a store whose commits on the message store fail.
\<close>

definition ex_page1 :: retentionInfo where
  "ex_page1 = \<lparr> topicRetetionTime = [(''t'', 0)],
      kv = [(''acked_ts/t/1'', ''880''), (''acked_ts/t/2'', ''995''),
            (''page_msg_size/t/1'', ''100''), (''page_msg_size/t/2'', ''100''),
            (''page_ts/t/1'', ''870''), (''page_ts/t/2'', ''990'')],
      db = [(''t/1'', ''a''), (''t/2'', ''b'')],
      topicMu = [(''t'', Mutex)], commits = [], warned = [] \<rparr>"


text \<open>A message store and a metadata store with one page each.\<close>

definition ex_compact :: retentionInfo where
  "ex_compact = \<lparr> topicRetetionTime = [(''t'', 0)],
      kv = [(''acked_ts/t/1'', ''880''), (''page_msg_size/t/1'', ''100''), (''page_ts/t/1'', ''870'')],
      db = [(''t/1'', ''hello'')],
      topicMu = [(''t'', Mutex)], commits = [], warned = [] \<rparr>"








section \<open>Arithmetic of \<^verbatim>\<open>int64\<close>\<close>





section \<open>The expiry predicates\<close>



section \<open>The shape of \<^verbatim>\<open>expiredCleanUp\<close>\<close>

lemma expiredCleanUp_unfold:
  "expiredCleanUp f params clock ri topic =
     (case calculateTopicAckedSize f ri topic of
        Inl err \<Rightarrow> (Some err, ri)
      | Inr totalAckedSize \<Rightarrow>
          if totalAckedSize = 0 then (None, ri)
          else (case expiredCleanUp_passes f params clock ri topic totalAckedSize of
                  Inl err \<Rightarrow> (Some err, ri)
                | Inr (rest2, v2) \<Rightarrow>
                    if pageEndID v2 = 0 then (None, ri) else cleanData f ri topic (pageEndID v2)))"
  by (auto simp: expiredCleanUp_def expiredCleanUp_passes_def Let_def
           split: sum.splits option.splits prod.splits)

section \<open>Errors of \<^verbatim>\<open>cleanData\<close>\<close>

text \<open>
  Claim C9. When the topic has no entry in the lock registry, \<^verbatim>\<open>cleanData\<close> returns the
  error that names the topic and leaves the whole state, both stores included, as it was.
  When \<^verbatim>\<open>DeleteMessages\<close> returns an error, \<^verbatim>\<open>cleanData\<close> returns an error, commits no
  batch and leaves the metadata store unchanged; with the lock found, the error returned
  is the one of \<^verbatim>\<open>DeleteMessages\<close>.
\<close>

theorem cleanData_atomic_on_error:
  "(map_of (topicMu ri) topic = None \<longrightarrow>
      cleanData f ri topic endID = (Some (TopicNotExist topic), ri)) \<and>
   (DeleteMessages f (db ri) topic 0 endID = Inl err \<longrightarrow>
      fst (cleanData f ri topic endID) \<noteq> None \<and>
      kv (snd (cleanData f ri topic endID)) = kv ri \<and>
      commits (snd (cleanData f ri topic endID)) = commits ri) \<and>
   (map_of (topicMu ri) topic = Some Mutex \<and>
    DeleteMessages f (db ri) topic 0 endID = Inl err \<longrightarrow>
      cleanData f ri topic endID = (Some err, ri))"
  by (simp add: cleanData_def Let_def split: option.splits lock_entry.splits)

theorem cleanData_atomic_on_error_witness:
  "map_of (topicMu (ex_page0\<lparr>topicMu := []\<rparr>)) ''t'' = None \<and>
   cleanData no_faults (ex_page0\<lparr>topicMu := []\<rparr>) ''t'' 1 =
     (Some (TopicNotExist ''t''), ex_page0\<lparr>topicMu := []\<rparr>) \<and>
   map_of (topicMu ex_page0) ''t'' = Some Mutex \<and>
   DeleteMessages (no_faults\<lparr>db_commit_fails := True\<rparr>) (db ex_page0) ''t'' 0 1 = Inl KVError \<and>
   cleanData (no_faults\<lparr>db_commit_fails := True\<rparr>) ex_page0 ''t'' 1 = (Some KVError, ex_page0)"
  using cleanData_atomic_on_error [of "ex_page0\<lparr>topicMu := []\<rparr>" "''t''" no_faults 1 KVError]
    cleanData_atomic_on_error [of ex_page0 "''t''" "no_faults\<lparr>db_commit_fails := True\<rparr>" 1 KVError]
  by (simp add: ex_page0_def DeleteMessages_def Commit_def no_faults_def)

section \<open>Passes that delete nothing\<close>

text \<open>
  Claim C7. \<^verbatim>\<open>expiredCleanUp\<close> returns success and leaves the state untouched (no batch
  committed, \<^verbatim>\<open>cleanData\<close> not run) when the total acked size is 0, and when both loops end
  with \<^verbatim>\<open>pageEndID\<close> equal to 0. The example is the second case with page 0 expired: the
  first loop marks page 0, \<^verbatim>\<open>pageEndID\<close> stays 0 and the page is not evicted.
\<close>

theorem expiredCleanUp_no_delete:
  "(calculateTopicAckedSize f ri topic = Inr 0 \<longrightarrow>
      expiredCleanUp f params clock ri topic = (None, ri)) \<and>
   (calculateTopicAckedSize f ri topic = Inr totalAckedSize \<and>
    expiredCleanUp_passes f params clock ri topic totalAckedSize = Inr (rest, v) \<and>
    pageEndID v = 0 \<longrightarrow>
      expiredCleanUp f params clock ri topic = (None, ri))"
  by (simp add: expiredCleanUp_unfold)

lemma ex_page0_calc: "calculateTopicAckedSize no_faults ex_page0 ''t'' = Inr 200"
  by code_simp

lemma ex_page0_passes:
  "expiredCleanUp_passes no_faults ex_params ex_clock ex_page0 ''t'' 200 =
     Inr ([(''page_msg_size/t/1'', ''100'')],
          \<lparr> pageEndID = 0, deletedAckedSize = 100, pageCleaned = 1, lastAck = 995 \<rparr>)"
  by code_simp

theorem expiredCleanUp_no_delete_witness:
  "calculateTopicAckedSize no_faults ex_page0 ''t'' = Inr 200 \<and>
   expiredCleanUp_passes no_faults ex_params ex_clock ex_page0 ''t'' 200 =
     Inr ([(''page_msg_size/t/1'', ''100'')],
          \<lparr> pageEndID = 0, deletedAckedSize = 100, pageCleaned = 1, lastAck = 995 \<rparr>) \<and>
   expiredCleanUp no_faults ex_params ex_clock ex_page0 ''t'' = (None, ex_page0)"
  using expiredCleanUp_no_delete [of no_faults ex_page0 "''t''" ex_params ex_clock 200
      "[(''page_msg_size/t/1'', ''100'')]"
      "\<lparr> pageEndID = 0, deletedAckedSize = 100, pageCleaned = 1, lastAck = 995 \<rparr>"]
    ex_page0_calc ex_page0_passes
  by simp

section \<open>The retention tick\<close>










section \<open>The compaction tick\<close>

text \<open>
  Claim C2 at a message store whose last entry is \<^verbatim>\<open>t/1\<close> with value \<^verbatim>\<open>hello\<close>: the request
  for the store ends at the successor of the value, \<^verbatim>\<open>hellp\<close>, where the successor of the
  last key is \<^verbatim>\<open>t/2\<close>; likewise for the metadata store.
\<close>

theorem compaction_tick_end_key:
  "SeekToLast (db ex_compact) = Some (''t/1'', ''hello'') \<and>
   SeekToLast (kv ex_compact) = Some (''page_ts/t/1'', ''870'') \<and>
   compaction_tick ex_compact =
     [Compact DataKV None ''hellp'' True, Compact MetaKV None ''871'' True] \<and>
   AddOne (iter_Key (''t/1'', ''hello'')) = ''t/2'' \<and>
   AddOne (iter_Key (''page_ts/t/1'', ''870'')) = ''page_ts/t/2''"
  by code_simp

section \<open>Bytewise order of keys and decimal text\<close>

lemma append_less_append [simp]:
  fixes p :: "'a :: linorder list"
  shows "p @ a < p @ b \<longleftrightarrow> a < b"
  by (induction p) simp_all





lemma dec_nat_nonempty: "dec_nat n \<noteq> []"
  by (subst dec_nat.simps) simp







section \<open>What \<^verbatim>\<open>cleanData\<close> deletes\<close>







section \<open>Keys of other topics\<close>








lemma digit_char_range: "d < 10 \<Longrightarrow> is_digit (digit_char d)"
  by (simp add: is_digit_def digit_char_def less_eq_char_def)

lemma dec_nat_digits: "list_all is_digit (dec_nat n)"
  by (induction n rule: dec_nat.induct) (subst dec_nat.simps, simp add: digit_char_range)








section \<open>The total acked size\<close>















lemma ex_page1_sum:
  "sum_list (map page_size
     (takeWhile (page_is_acked no_faults (kv ex_page1) ''t'') (page_entries None (kv ex_page1) ''t''))) = 200"
  by code_simp


section \<open>The pages that the two loops mark\<close>











section \<open>Page ids of equal width\<close>



lemma dec_nat_not_less_minus: "\<not> dec_nat q < CHR ''-'' # xs"
proof -
  obtain c cs where d: "dec_nat q = c # cs"
    using dec_nat_nonempty [of q] by (cases "dec_nat q") auto
  have "is_digit c" using dec_nat_digits [of q] by (simp add: d)
  then have "CHR ''-'' < c" by (simp add: is_digit_def less_eq_char_def less_char_def)
  then have "\<not> c < CHR ''-''" "c \<noteq> CHR ''-''" by auto
  then show ?thesis by (simp add: d)
qed






section \<open>Pages that are not acked\<close>










section \<open>A second pass\<close>




























end
